theory Spec2Isabelle
  imports Main
begin

section \<open>The wallet session and signing operations of src/auth/hooks/useAuth.ts\<close>

text \<open>
  The hook \<open>useAuth\<close> keeps one in-memory value, the recoil atom \<open>wallet\<close>, and talks to
  three collaborators: the keystore (\<open>../scripts/keystore\<close>), the chain client
  (\<open>useLCDClient\<close>) and the Ledger device (\<open>../ledger/ledger\<close>, \<open>LedgerKey\<close>).
  Every operation of the hook is a function from the world before the call to an outcome
  (a thrown error or a returned value) and the world after it. The world records the
  atom, the \<open>wallet\<close> constant of the current render (which the operations close over),
  the persisted wallet record and the list of collaborator calls made so far, so that
  "no account lookup was performed" is a statement about that list.
\<close>

subsection \<open>Data\<close>

text \<open>
  The two exception classes the hook throws: \<open>new Error(msg)\<close> and
  \<open>new PasswordError(msg)\<close>.
\<close>

datatype error = Error string | PasswordError string

abbreviation SessionError :: error where
  "SessionError \<equiv> Error ''Wallet is not defined''"

abbreviation UnsupportedOperation :: error where
  "UnsupportedOperation \<equiv> Error ''Ledger can not sign arbitrary data''"

abbreviation DeviceError :: error where
  "DeviceError \<equiv> Error ''Public key is not defined''"

abbreviation IncorrectPasswordError :: error where
  "IncorrectPasswordError \<equiv> PasswordError ''Incorrect password''"

fun is_PasswordError :: "error \<Rightarrow> bool" where
  "is_PasswordError (PasswordError m) = True"
| "is_PasswordError (Error m) = False"

text \<open>
  The wallet objects the hook builds: \<open>{ name, address }\<close>,
  \<open>{ name, address, multisig: true }\<close> and \<open>{ address, ledger: true }\<close>. An absent
  \<open>name\<close> is \<open>None\<close>, an absent flag is \<open>False\<close>.
\<close>

record wallet =
  name :: "string option"
  address :: string
  multisig :: bool
  ledger :: bool

text \<open>What \<open>connect\<close> reads of a stored wallet: its address and the multisig mark.\<close>

record stored_wallet =
  stored_address :: string
  stored_multisig :: bool

record tx =
  auth_info :: string
  body :: string

record account_info =
  getAccountNumber :: nat
  getSequenceNumber :: nat

text \<open>The five constructor arguments of \<open>SignDoc\<close>, in the order of the source.\<close>

record sign_doc =
  doc_chain_id :: string
  doc_account_number :: nat
  doc_sequence :: nat
  doc_auth_info :: string
  doc_body :: string

datatype sign_mode =
    SIGN_MODE_UNSPECIFIED
  | SIGN_MODE_DIRECT
  | SIGN_MODE_TEXTUAL
  | SIGN_MODE_LEGACY_AMINO_JSON

record sign_options =
  opt_chainID :: string
  opt_accountNumber :: nat
  opt_sequence :: nat
  opt_signMode :: sign_mode

text \<open>The two key classes: \<open>new LedgerKey(publicKey)\<close> and \<open>new RawKey(Buffer.from(pk, "hex"))\<close>.\<close>

datatype key = LedgerKey string | RawKey string

record broadcast_result =
  code :: "nat option"
  raw_log :: string
  txhash :: string

text \<open>The object \<open>encodeEncryptedWallet\<close> serialises.\<close>

record wallet_bundle =
  bundle_name :: "string option"
  bundle_address :: string
  encrypted_key :: string

text \<open>The object \<open>signBytes\<close> returns.\<close>

record signed_bytes =
  recid :: nat
  signature :: string
  public_key :: "string option"

text \<open>
  \<open>validatePassword\<close> returns either what \<open>testPassword\<close> returned or the string
  \<open>"Incorrect password"\<close>.
\<close>

datatype validation = Tested bool | Message string

subsection \<open>Collaborators\<close>

text \<open>Every call that leaves the hook, with its arguments.\<close>

datatype call =
    KeystoreGetStoredWallet string
  | KeystoreStoreWallet wallet
  | KeystoreClearWallet
  | KeystoreGetDecryptedKey "string option" string
  | KeystoreTestPassword "string option" string
  | LedgerGetPubKey
  | LedgerCreateSignatureAmino string sign_doc
  | LedgerSignTx string tx sign_options
  | LcdAccountInfo string
  | LcdAccountNumberAndSequence key
  | LcdTxCreate string string
  | LcdCreateAndSignTx key string
  | LcdBroadcastSync tx

fun is_keystore_call :: "call \<Rightarrow> bool" where
  "is_keystore_call (KeystoreGetStoredWallet n) = True"
| "is_keystore_call (KeystoreStoreWallet w) = True"
| "is_keystore_call KeystoreClearWallet = True"
| "is_keystore_call (KeystoreGetDecryptedKey n p) = True"
| "is_keystore_call (KeystoreTestPassword n p) = True"
| "is_keystore_call c = False"

fun is_lcd_call :: "call \<Rightarrow> bool" where
  "is_lcd_call (LcdAccountInfo a) = True"
| "is_lcd_call (LcdAccountNumberAndSequence k) = True"
| "is_lcd_call (LcdTxCreate a t) = True"
| "is_lcd_call (LcdCreateAndSignTx k t) = True"
| "is_lcd_call (LcdBroadcastSync t) = True"
| "is_lcd_call c = False"

text \<open>
  Modelled from the spec: the collaborators, whose code is not part of the hook's file
  (\<open>../scripts/keystore\<close>, \<open>../scripts/encrypt\<close>, \<open>../ledger/ledger\<close>,
  \<open>../ledger/LedgerKey\<close>, the LCD client and the key classes of terra.js). Each is a
  parameter: what it answers to a call, an error standing for a throw or a rejected
  promise. A decrypted key and a device public key may be absent (\<open>None\<close>), as the
  checks \<open>if (!pk)\<close> of the source allow. The two writes of the keystore either throw
  (\<open>Some e\<close>) or succeed. The guard \<open>is.local\<close> of \<open>../scripts/is\<close> is a parameter
  too: nothing under src says which wallets it accepts. \<open>new_RawKey\<close> is the constructor
  \<open>new RawKey(Buffer.from(pk, "hex"))\<close>, which throws on a key it does not accept.
\<close>

record env =
  is_local :: "wallet option \<Rightarrow> bool"
  new_RawKey :: "string \<Rightarrow> error + key"
  keystore_getStoredWallet :: "string \<Rightarrow> error + stored_wallet"
  keystore_storeWallet :: "wallet \<Rightarrow> error option"
  keystore_clearWallet :: "error option"
  keystore_getDecryptedKey :: "string option \<Rightarrow> string \<Rightarrow> error + string option"
  keystore_testPassword :: "string option \<Rightarrow> string \<Rightarrow> error + bool"
  encrypt :: "string option \<Rightarrow> string \<Rightarrow> string"
  encode_json :: "wallet_bundle \<Rightarrow> string"
  ledger_getPubKey :: "error + string option"
  ledger_createSignatureAmino :: "string \<Rightarrow> sign_doc \<Rightarrow> error + string"
  ledger_signTx :: "string \<Rightarrow> tx \<Rightarrow> sign_options \<Rightarrow> error + tx"
  raw_createSignatureAmino :: "string \<Rightarrow> sign_doc \<Rightarrow> error + string"
  raw_ecdsaSign :: "string \<Rightarrow> string \<Rightarrow> string option \<times> nat"
  raw_publicKey :: "string \<Rightarrow> string option"
  base64 :: "string \<Rightarrow> string"
  chainID :: string
  lcd_chainID :: string
  lcd_accountInfo :: "string \<Rightarrow> error + account_info"
  lcd_accountNumberAndSequence :: "key \<Rightarrow> error + nat \<times> nat"
  lcd_tx_create :: "string \<Rightarrow> string \<Rightarrow> error + tx"
  lcd_createAndSignTx :: "key \<Rightarrow> string \<Rightarrow> error + tx"
  lcd_broadcastSync :: "tx \<Rightarrow> error + broadcast_result"

subsection \<open>The world and the sequencing of effects\<close>

text \<open>
  \<open>session\<close> is the value of the atom \<open>walletState\<close>; \<open>render_wallet\<close> is the constant
  \<open>wallet\<close> of line 28, read from the atom when the hook renders. \<open>setWallet\<close> writes
  the atom; the operations read the constant of the render that created them.
\<close>

record world =
  session :: "wallet option"
  render_wallet :: "wallet option"
  persisted :: "wallet option"
  calls :: "call list"

type_synonym 'a op = "world \<Rightarrow> (error + 'a) \<times> world"

definition ret :: "'a \<Rightarrow> 'a op" where
  "ret x w = (Inr x, w)"

definition throw :: "error \<Rightarrow> 'a op" where
  "throw e w = (Inl e, w)"

text \<open>Statement sequencing: a throw in the first part skips the rest.\<close>

definition and_then :: "'a op \<Rightarrow> ('a \<Rightarrow> 'b op) \<Rightarrow> 'b op" where
  "and_then m f w = (case m w of (Inl e, w') \<Rightarrow> (Inl e, w') | (Inr x, w') \<Rightarrow> f x w')"

text \<open>\<open>try { m } catch (error) { h }\<close>.\<close>

definition try_catch :: "'a op \<Rightarrow> (error \<Rightarrow> 'a op) \<Rightarrow> 'a op" where
  "try_catch m h w = (case m w of (Inl e, w') \<Rightarrow> h e w' | (Inr x, w') \<Rightarrow> (Inr x, w'))"

text \<open>A call to a collaborator is recorded, then answers.\<close>

definition external :: "call \<Rightarrow> error + 'a \<Rightarrow> 'a op" where
  "external c answer w = (answer, w\<lparr>calls := calls w @ [c]\<rparr>)"

definition setWallet :: "wallet option \<Rightarrow> unit op" where
  "setWallet v w = (Inr (), w\<lparr>session := v\<rparr>)"

text \<open>The hook renders again: \<open>useRecoilState\<close> hands the atom's value to the new closures.\<close>

definition render :: "world \<Rightarrow> world" where
  "render w = w\<lparr>render_wallet := session w\<rparr>"

subsection \<open>The helpers of \<open>../scripts/is\<close> and \<open>../scripts/keystore\<close>\<close>

text \<open>
  Modelled from the spec: \<open>is.ledger\<close> and \<open>is.multisig\<close> of \<open>../scripts/is\<close>, which is
  not under src. The source marks a Ledger wallet with \<open>ledger: true\<close> and a multisig one
  with \<open>multisig: true\<close>; the two helpers test the marks.
\<close>

definition is_ledger :: "wallet \<Rightarrow> bool" where
  "is_ledger wallet = ledger wallet"

definition is_multisig :: "stored_wallet \<Rightarrow> bool" where
  "is_multisig storedWallet = stored_multisig storedWallet"

text \<open>
  Modelled from the spec: \<open>storeWallet\<close> and \<open>clearWallet\<close> of \<open>../scripts/keystore\<close>
  (the Vault Gateway's \<open>store(descriptor)\<close> and \<open>clear()\<close>), which write and clear the
  persisted "current wallet" record unless they fail.
\<close>

definition storeWallet :: "env \<Rightarrow> wallet \<Rightarrow> unit op" where
  "storeWallet env wallet w =
     (case keystore_storeWallet env wallet of
        Some e \<Rightarrow> (Inl e, w\<lparr>calls := calls w @ [KeystoreStoreWallet wallet]\<rparr>)
      | None \<Rightarrow> (Inr (), w\<lparr>persisted := Some wallet,
                            calls := calls w @ [KeystoreStoreWallet wallet]\<rparr>))"

definition clearWallet :: "env \<Rightarrow> unit op" where
  "clearWallet env w =
     (case keystore_clearWallet env of
        Some e \<Rightarrow> (Inl e, w\<lparr>calls := calls w @ [KeystoreClearWallet]\<rparr>)
      | None \<Rightarrow> (Inr (), w\<lparr>persisted := None,
                            calls := calls w @ [KeystoreClearWallet]\<rparr>))"

text \<open>
  The atom's default is \<open>getWallet()\<close>: the session starts as the persisted record, and
  the first render reads it.
\<close>

definition walletState :: "wallet option \<Rightarrow> world" where
  "walletState stored =
     \<lparr>session = stored, render_wallet = stored, persisted = stored, calls = []\<rparr>"

subsection \<open>connect, connectLedger, disconnect\<close>

definition connect :: "env \<Rightarrow> string \<Rightarrow> unit op" where
  "connect env n =
     and_then (external (KeystoreGetStoredWallet n) (keystore_getStoredWallet env n))
       (\<lambda>storedWallet.
          let wallet = (if is_multisig storedWallet
                        then \<lparr>name = Some n, address = stored_address storedWallet,
                              multisig = True, ledger = False\<rparr>
                        else \<lparr>name = Some n, address = stored_address storedWallet,
                              multisig = False, ledger = False\<rparr>)
          in and_then (storeWallet env wallet) (\<lambda>_. setWallet (Some wallet)))"

definition connectLedger :: "env \<Rightarrow> string \<Rightarrow> unit op" where
  "connectLedger env a =
     (let wallet = \<lparr>name = None, address = a, multisig = False, ledger = True\<rparr>
      in and_then (storeWallet env wallet) (\<lambda>_. setWallet (Some wallet)))"

definition disconnect :: "env \<Rightarrow> unit op" where
  "disconnect env = and_then (clearWallet env) (\<lambda>_. setWallet None)"

subsection \<open>Helpers of the hook\<close>

definition connectedWallet :: "env \<Rightarrow> world \<Rightarrow> wallet option" where
  "connectedWallet env w =
     (if \<not> is_local env (render_wallet w) then None else render_wallet w)"

definition getConnectedWallet :: "env \<Rightarrow> wallet op" where
  "getConnectedWallet env w =
     (case connectedWallet env w of
        None \<Rightarrow> throw SessionError w
      | Some wallet \<Rightarrow> ret wallet w)"

definition getKey :: "env \<Rightarrow> string \<Rightarrow> string option op" where
  "getKey env password =
     and_then (getConnectedWallet env)
       (\<lambda>cw. external (KeystoreGetDecryptedKey (name cw) password)
                (keystore_getDecryptedKey env (name cw) password))"

definition getLedgerKey :: "env \<Rightarrow> string op" where
  "getLedgerKey env =
     and_then (external LedgerGetPubKey (ledger_getPubKey env))
       (\<lambda>pk. case pk of None \<Rightarrow> throw DeviceError | Some p \<Rightarrow> ret p)"

text \<open>
  JavaScript's \<open>!pk\<close> on a string that may be undefined: true of \<open>undefined\<close> and of
  the empty string. The operations below write the test \<open>if (!pk) throw ...\<close> as the
  two cases of the absent and of the empty key.
\<close>

definition falsy :: "string option \<Rightarrow> bool" where
  "falsy pk = (case pk of None \<Rightarrow> True | Some s \<Rightarrow> s = [])"

subsection \<open>Export and password form\<close>

definition encodeEncryptedWallet :: "env \<Rightarrow> string \<Rightarrow> string op" where
  "encodeEncryptedWallet env password =
     and_then (getConnectedWallet env)
       (\<lambda>cw. and_then (getKey env password)
          (\<lambda>k. ret (encode_json env
                  \<lparr>bundle_name = name cw, bundle_address = address cw,
                   encrypted_key = encrypt env k password\<rparr>)))"

definition validatePassword :: "env \<Rightarrow> string \<Rightarrow> validation op" where
  "validatePassword env password =
     try_catch
       (and_then (getConnectedWallet env)
          (\<lambda>cw. and_then (external (KeystoreTestPassword (name cw) password)
                            (keystore_testPassword env (name cw) password))
             (\<lambda>b. ret (Tested b))))
       (\<lambda>error. ret (Message ''Incorrect password''))"

subsection \<open>Transactions\<close>

definition create :: "env \<Rightarrow> string \<Rightarrow> tx op" where
  "create env txOptions w =
     (case render_wallet w of
        None \<Rightarrow> throw SessionError w
      | Some wallet \<Rightarrow>
          external (LcdTxCreate (address wallet) txOptions)
            (lcd_tx_create env (address wallet) txOptions) w)"

definition SignDoc :: "env \<Rightarrow> account_info \<Rightarrow> tx \<Rightarrow> sign_doc" where
  "SignDoc env accountInfo t =
     \<lparr>doc_chain_id = lcd_chainID env,
      doc_account_number = getAccountNumber accountInfo,
      doc_sequence = getSequenceNumber accountInfo,
      doc_auth_info = auth_info t,
      doc_body = body t\<rparr>"

text \<open>
  In the software branch of \<open>createSignature\<close> the collaborator \<open>raw_createSignatureAmino\<close>
  stands for lines 140 and 141 together: building the \<open>RawKey\<close> and its
  \<open>createSignatureAmino(doc)\<close>; a throw of either is an error answer.
\<close>

definition createSignature :: "env \<Rightarrow> tx \<Rightarrow> string \<Rightarrow> string \<Rightarrow> string op" where
  "createSignature env t a password w =
     (case render_wallet w of
        None \<Rightarrow> throw SessionError w
      | Some wallet \<Rightarrow>
          and_then (external (LcdAccountInfo a) (lcd_accountInfo env a))
            (\<lambda>accountInfo.
               let doc = SignDoc env accountInfo t in
               if is_ledger wallet then
                 and_then (getLedgerKey env)
                   (\<lambda>k. external (LedgerCreateSignatureAmino k doc)
                          (ledger_createSignatureAmino env k doc))
               else
                 and_then (getKey env password)
                   (\<lambda>pk. case pk of
                           None \<Rightarrow> throw IncorrectPasswordError
                         | Some k \<Rightarrow>
                             if k = [] then throw IncorrectPasswordError
                             else (\<lambda>w'. (raw_createSignatureAmino env k doc, w')))) w)"

definition sign :: "env \<Rightarrow> string \<Rightarrow> string \<Rightarrow> tx op" where
  "sign env txOptions password w =
     (case render_wallet w of
        None \<Rightarrow> throw SessionError w
      | Some wallet \<Rightarrow>
          if is_ledger wallet then
            and_then (getLedgerKey env)
              (\<lambda>k. and_then (external (LcdAccountNumberAndSequence (LedgerKey k))
                               (lcd_accountNumberAndSequence env (LedgerKey k)))
                 (\<lambda>(accountNumber, sequence).
                    let signMode = SIGN_MODE_LEGACY_AMINO_JSON in
                    and_then (create env txOptions)
                      (\<lambda>unsignedTx.
                         let options = \<lparr>opt_chainID = chainID env,
                                        opt_accountNumber = accountNumber,
                                        opt_sequence = sequence,
                                        opt_signMode = signMode\<rparr>
                         in external (LedgerSignTx k unsignedTx options)
                              (ledger_signTx env k unsignedTx options)))) w
          else
            and_then (getKey env password)
              (\<lambda>pk. case pk of
                      None \<Rightarrow> throw IncorrectPasswordError
                    | Some k \<Rightarrow>
                        if k = [] then throw IncorrectPasswordError
                        else and_then (\<lambda>w'. (new_RawKey env k, w'))
                               (\<lambda>rawKey. external (LcdCreateAndSignTx rawKey txOptions)
                                  (lcd_createAndSignTx env rawKey txOptions))) w)"

definition signBytes :: "env \<Rightarrow> string \<Rightarrow> string \<Rightarrow> signed_bytes op" where
  "signBytes env bytes password w =
     (case render_wallet w of
        None \<Rightarrow> throw SessionError w
      | Some wallet \<Rightarrow>
          if is_ledger wallet then throw UnsupportedOperation w
          else
            and_then (getKey env password)
              (\<lambda>pk. case pk of
                      None \<Rightarrow> throw IncorrectPasswordError
                    | Some k \<Rightarrow>
                        if k = [] then throw IncorrectPasswordError
                        else and_then (\<lambda>w'. (new_RawKey env k, w'))
                               (\<lambda>rawKey. case raw_ecdsaSign env k bytes of
                                  (None, r) \<Rightarrow> throw (Error ''Signature is undefined'')
                                | (Some s, r) \<Rightarrow>
                                    ret \<lparr>recid = r, signature = base64 env s,
                                         public_key = raw_publicKey env k\<rparr>)) w)"

text \<open>
  Modelled from the spec: \<open>isTxError\<close> of the terra.js library, which is not under src.
  A protocol-level rejection is a result that carries a code other than zero.
\<close>

definition isTxError :: "broadcast_result \<Rightarrow> bool" where
  "isTxError result = (case code result of None \<Rightarrow> False | Some c \<Rightarrow> c \<noteq> 0)"

definition post :: "env \<Rightarrow> string \<Rightarrow> string \<Rightarrow> broadcast_result op" where
  "post env txOptions password w =
     (case render_wallet w of
        None \<Rightarrow> throw SessionError w
      | Some wallet \<Rightarrow>
          and_then (sign env txOptions password)
            (\<lambda>signedTx. and_then (external (LcdBroadcastSync signedTx)
                                   (lcd_broadcastSync env signedTx))
               (\<lambda>result. if isTxError result then throw (Error (raw_log result))
                         else ret result)) w)"

subsection \<open>A sample keystore, chain and device\<close>

text \<open>
  One stored wallet \<open>alice\<close> at \<open>addr1\<close> with password \<open>pw1\<close>, one stored multisig
  wallet \<open>team\<close> at \<open>addr3\<close>, a device with a public key, and an account with number 7
  at sequence 42. The keystore answers a wrong password with no key, and its password
  test answers \<open>false\<close>. Its \<open>is.local\<close> accepts the wallets without the Ledger mark,
  and its \<open>RawKey\<close> accepts keys of 64 hexadecimal digits.
\<close>

definition alice_key :: string where
  "alice_key = ''c0ffee00c0ffee00c0ffee00c0ffee00c0ffee00c0ffee00c0ffee00c0ffee00''"

definition sample_env :: env where
  "sample_env =
     \<lparr>is_local = (\<lambda>v. case v of None \<Rightarrow> False | Some wallet \<Rightarrow> \<not> ledger wallet),
      new_RawKey =
        (\<lambda>k. if length k = 64 then Inr (RawKey k)
              else Inl (Error ''private key length is invalid'')),
      keystore_getStoredWallet =
        (\<lambda>n. if n = ''alice'' then Inr \<lparr>stored_address = ''addr1'', stored_multisig = False\<rparr>
              else if n = ''team'' then Inr \<lparr>stored_address = ''addr3'', stored_multisig = True\<rparr>
              else Inl (Error ''Wallet does not exist'')),
      keystore_storeWallet = (\<lambda>wallet. None),
      keystore_clearWallet = None,
      keystore_getDecryptedKey =
        (\<lambda>n p. if n = Some ''alice'' \<and> p = ''pw1'' then Inr (Some alice_key) else Inr None),
      keystore_testPassword = (\<lambda>n p. Inr (n = Some ''alice'' \<and> p = ''pw1'')),
      encrypt = (\<lambda>k p. (case k of None \<Rightarrow> ''undefined'' | Some s \<Rightarrow> s) @ ''#'' @ p),
      encode_json =
        (\<lambda>b. (case bundle_name b of None \<Rightarrow> [] | Some n \<Rightarrow> n) @ '','' @ bundle_address b
              @ '','' @ encrypted_key b),
      ledger_getPubKey = Inr (Some ''pub2''),
      ledger_createSignatureAmino = (\<lambda>k d. Inr ''ledger-signature''),
      ledger_signTx = (\<lambda>k t options. Inr t),
      raw_createSignatureAmino = (\<lambda>k d. Inr ''raw-signature''),
      raw_ecdsaSign = (\<lambda>k b. (Some ''sig'', 0)),
      raw_publicKey = (\<lambda>k. Some ''pub1''),
      base64 = (\<lambda>s. s),
      chainID = ''columbus-5'',
      lcd_chainID = ''columbus-5'',
      lcd_accountInfo = (\<lambda>a. Inr \<lparr>getAccountNumber = 7, getSequenceNumber = 42\<rparr>),
      lcd_accountNumberAndSequence = (\<lambda>k. Inr (7, 42)),
      lcd_tx_create = (\<lambda>a options. Inr \<lparr>auth_info = a, body = options\<rparr>),
      lcd_createAndSignTx = (\<lambda>k options. Inr \<lparr>auth_info = ''signed'', body = options\<rparr>),
      lcd_broadcastSync = (\<lambda>t. Inr \<lparr>code = None, raw_log = [], txhash = ''hash''\<rparr>)\<rparr>"

text \<open>The same collaborators, except that clearing the persisted record throws.\<close>

definition failing_clear_env :: env where
  "failing_clear_env = sample_env\<lparr>keystore_clearWallet := Some (Error ''storage unavailable'')\<rparr>"

text \<open>The chain one confirmed transaction earlier: the same account at sequence 41.\<close>

definition earlier_env :: env where
  "earlier_env =
     sample_env\<lparr>lcd_accountInfo := (\<lambda>a. Inr \<lparr>getAccountNumber = 7, getSequenceNumber = 41\<rparr>),
                lcd_accountNumberAndSequence := (\<lambda>k. Inr (7, 41))\<rparr>"

text \<open>The same collaborators, except that the keystore is locked and its password test throws.\<close>

definition locked_env :: env where
  "locked_env = sample_env\<lparr>keystore_testPassword := (\<lambda>n p. Inl (Error ''locked''))\<rparr>"

definition alice_wallet :: wallet where
  "alice_wallet = \<lparr>name = Some ''alice'', address = ''addr1'', multisig = False, ledger = False\<rparr>"

definition ledger_wallet :: wallet where
  "ledger_wallet = \<lparr>name = None, address = ''addr2'', multisig = False, ledger = True\<rparr>"

definition alice_world :: world where
  "alice_world = walletState (Some alice_wallet)"

definition ledger_world :: world where
  "ledger_world = walletState (Some ledger_wallet)"

definition sample_tx :: tx where
  "sample_tx = \<lparr>auth_info = ''fee'', body = ''send''\<rparr>"

section \<open>Properties\<close>

subsection \<open>Auxiliary facts\<close>

lemmas op_defs = ret_def throw_def and_then_def try_catch_def external_def setWallet_def

lemmas sample_defs = sample_env_def failing_clear_env_def earlier_env_def locked_env_def
  alice_wallet_def ledger_wallet_def alice_world_def ledger_world_def sample_tx_def
  walletState_def

lemma alice_key_accepted: "alice_key \<noteq> [] \<and> length alice_key = 64"
  by (simp add: alice_key_def)

lemma getConnectedWallet_local:
  "render_wallet w = Some wallet \<Longrightarrow> is_local env (Some wallet) \<Longrightarrow>
   getConnectedWallet env w = (Inr wallet, w)"
  by (simp add: getConnectedWallet_def connectedWallet_def ret_def)

lemma getConnectedWallet_rejected:
  "\<not> is_local env (render_wallet w) \<Longrightarrow> getConnectedWallet env w = (Inl SessionError, w)"
  by (simp add: getConnectedWallet_def connectedWallet_def throw_def)

lemma getConnectedWallet_none:
  "render_wallet w = None \<Longrightarrow> getConnectedWallet env w = (Inl SessionError, w)"
  by (simp add: getConnectedWallet_def connectedWallet_def throw_def)

lemma getKey_local:
  "render_wallet w = Some wallet \<Longrightarrow> is_local env (Some wallet) \<Longrightarrow>
   getKey env password w =
     (keystore_getDecryptedKey env (name wallet) password,
      w\<lparr>calls := calls w @ [KeystoreGetDecryptedKey (name wallet) password]\<rparr>)"
  by (simp add: getKey_def and_then_def external_def getConnectedWallet_local)

lemma getLedgerKey_some:
  "ledger_getPubKey env = Inr (Some pk) \<Longrightarrow>
   getLedgerKey env w = (Inr pk, w\<lparr>calls := calls w @ [LedgerGetPubKey]\<rparr>)"
  by (simp add: getLedgerKey_def op_defs)

lemma disconnect_cases:
  "disconnect env w =
     (case keystore_clearWallet env of
        None \<Rightarrow> (Inr (), w\<lparr>session := None, persisted := None,
                           calls := calls w @ [KeystoreClearWallet]\<rparr>)
      | Some e \<Rightarrow> (Inl e, w\<lparr>calls := calls w @ [KeystoreClearWallet]\<rparr>))"
  by (simp add: disconnect_def clearWallet_def op_defs split: option.splits)

lemma connectLedger_cases:
  "connectLedger env a w =
     (let wallet = \<lparr>name = None, address = a, multisig = False, ledger = True\<rparr> in
      case keystore_storeWallet env wallet of
        None \<Rightarrow> (Inr (), w\<lparr>session := Some wallet, persisted := Some wallet,
                           calls := calls w @ [KeystoreStoreWallet wallet]\<rparr>)
      | Some e \<Rightarrow> (Inl e, w\<lparr>calls := calls w @ [KeystoreStoreWallet wallet]\<rparr>))"
  by (simp add: connectLedger_def storeWallet_def op_defs Let_def split: option.splits)

lemma connect_cases:
  assumes "keystore_getStoredWallet env n = Inr storedWallet"
      and "keystore_storeWallet env
             \<lparr>name = Some n, address = stored_address storedWallet,
              multisig = stored_multisig storedWallet, ledger = False\<rparr> = None"
  shows "connect env n w =
     (Inr (),
      w\<lparr>session := Some \<lparr>name = Some n, address = stored_address storedWallet,
                          multisig = stored_multisig storedWallet, ledger = False\<rparr>,
        persisted := Some \<lparr>name = Some n, address = stored_address storedWallet,
                            multisig = stored_multisig storedWallet, ledger = False\<rparr>,
        calls := calls w @
          [KeystoreGetStoredWallet n,
           KeystoreStoreWallet \<lparr>name = Some n, address = stored_address storedWallet,
                                multisig = stored_multisig storedWallet, ledger = False\<rparr>]\<rparr>)"
  using assms
  by (cases "stored_multisig storedWallet")
     (simp_all add: connect_def storeWallet_def op_defs is_multisig_def Let_def)

lemma sign_ledger_path:
  assumes "render_wallet w = Some wallet" and "ledger wallet"
      and "ledger_getPubKey env = Inr (Some pk)"
      and "lcd_accountNumberAndSequence env (LedgerKey pk) = Inr (an, sq)"
      and "lcd_tx_create env (address wallet) txOptions = Inr unsignedTx"
  shows "sign env txOptions password w =
     (ledger_signTx env pk unsignedTx
        \<lparr>opt_chainID = chainID env, opt_accountNumber = an, opt_sequence = sq,
         opt_signMode = SIGN_MODE_LEGACY_AMINO_JSON\<rparr>,
      w\<lparr>calls := calls w @
          [LedgerGetPubKey, LcdAccountNumberAndSequence (LedgerKey pk),
           LcdTxCreate (address wallet) txOptions,
           LedgerSignTx pk unsignedTx
             \<lparr>opt_chainID = chainID env, opt_accountNumber = an, opt_sequence = sq,
              opt_signMode = SIGN_MODE_LEGACY_AMINO_JSON\<rparr>]\<rparr>)"
  using assms
  by (simp add: sign_def is_ledger_def getLedgerKey_some and_then_def external_def create_def
      Let_def)

lemma sign_local_path:
  assumes "render_wallet w = Some wallet" and "\<not> ledger wallet"
      and "is_local env (Some wallet)"
      and "keystore_getDecryptedKey env (name wallet) password = Inr (Some k)" and "k \<noteq> []"
      and "new_RawKey env k = Inr rawKey"
  shows "sign env txOptions password w =
     (lcd_createAndSignTx env rawKey txOptions,
      w\<lparr>calls := calls w @
          [KeystoreGetDecryptedKey (name wallet) password,
           LcdCreateAndSignTx rawKey txOptions]\<rparr>)"
  using assms
  by (simp add: sign_def is_ledger_def getKey_local and_then_def external_def)

lemma sign_no_key:
  assumes "render_wallet w = Some wallet" and "\<not> ledger wallet"
      and "is_local env (Some wallet)"
      and "keystore_getDecryptedKey env (name wallet) password = Inr pk" and "falsy pk"
  shows "sign env txOptions password w =
     (Inl IncorrectPasswordError,
      w\<lparr>calls := calls w @ [KeystoreGetDecryptedKey (name wallet) password]\<rparr>)"
  using assms
  by (simp add: sign_def is_ledger_def getKey_local and_then_def throw_def falsy_def
      split: option.splits)

lemma createSignature_ledger_path:
  assumes "render_wallet w = Some wallet" and "ledger wallet"
      and "lcd_accountInfo env a = Inr accountInfo"
      and "ledger_getPubKey env = Inr (Some pk)"
  shows "createSignature env t a password w =
     (ledger_createSignatureAmino env pk (SignDoc env accountInfo t),
      w\<lparr>calls := calls w @
          [LcdAccountInfo a, LedgerGetPubKey,
           LedgerCreateSignatureAmino pk (SignDoc env accountInfo t)]\<rparr>)"
  using assms
  by (simp add: createSignature_def is_ledger_def getLedgerKey_some and_then_def external_def
      Let_def)

lemma createSignature_local_path:
  assumes "render_wallet w = Some wallet" and "\<not> ledger wallet"
      and "is_local env (Some wallet)"
      and "lcd_accountInfo env a = Inr accountInfo"
      and "keystore_getDecryptedKey env (name wallet) password = Inr (Some k)" and "k \<noteq> []"
  shows "createSignature env t a password w =
     (raw_createSignatureAmino env k (SignDoc env accountInfo t),
      w\<lparr>calls := calls w @
          [LcdAccountInfo a, KeystoreGetDecryptedKey (name wallet) password]\<rparr>)"
  using assms
  by (simp add: createSignature_def is_ledger_def getKey_local and_then_def external_def
      Let_def)

lemma no_session_fails:
  assumes "render_wallet w = None"
  shows "create env txOptions w = (Inl SessionError, w)"
    and "createSignature env t a password w = (Inl SessionError, w)"
    and "sign env txOptions password w = (Inl SessionError, w)"
    and "signBytes env bytes password w = (Inl SessionError, w)"
    and "post env txOptions password w = (Inl SessionError, w)"
  using assms
  by (simp_all add: create_def createSignature_def sign_def signBytes_def post_def throw_def)

lemma validatePassword_no_wallet:
  "connectedWallet env w = None \<Longrightarrow>
   validatePassword env password w = (Inr (Message ''Incorrect password''), w)"
  by (simp add: validatePassword_def getConnectedWallet_def op_defs)

lemma validatePassword_local:
  "render_wallet w = Some wallet \<Longrightarrow> is_local env (Some wallet) \<Longrightarrow>
   validatePassword env password w =
     (case keystore_testPassword env (name wallet) password of
        Inl e \<Rightarrow> Inr (Message ''Incorrect password'')
      | Inr b \<Rightarrow> Inr (Tested b),
      w\<lparr>calls := calls w @ [KeystoreTestPassword (name wallet) password]\<rparr>)"
  by (simp add: validatePassword_def getConnectedWallet_local op_defs split: sum.splits)

lemma encodeEncryptedWallet_local:
  "render_wallet w = Some wallet \<Longrightarrow> is_local env (Some wallet) \<Longrightarrow>
   encodeEncryptedWallet env password w =
     (case keystore_getDecryptedKey env (name wallet) password of
        Inl e \<Rightarrow> Inl e
      | Inr k \<Rightarrow> Inr (encode_json env
                  \<lparr>bundle_name = name wallet, bundle_address = address wallet,
                   encrypted_key = encrypt env k password\<rparr>),
      w\<lparr>calls := calls w @ [KeystoreGetDecryptedKey (name wallet) password]\<rparr>)"
  by (simp add: encodeEncryptedWallet_def getConnectedWallet_local getKey_local
      and_then_def ret_def split: sum.splits)

lemma signBytes_ledger:
  "render_wallet w = Some wallet \<Longrightarrow> ledger wallet \<Longrightarrow>
   signBytes env bytes password w = (Inl UnsupportedOperation, w)"
  by (simp add: signBytes_def is_ledger_def throw_def)

lemma signBytes_local_path:
  assumes "render_wallet w = Some wallet" and "\<not> ledger wallet"
      and "is_local env (Some wallet)"
      and "keystore_getDecryptedKey env (name wallet) password = Inr (Some k)" and "k \<noteq> []"
      and "new_RawKey env k = Inr rawKey"
      and "raw_ecdsaSign env k bytes = (Some s, r)"
  shows "signBytes env bytes password w =
     (Inr \<lparr>recid = r, signature = base64 env s, public_key = raw_publicKey env k\<rparr>,
      w\<lparr>calls := calls w @ [KeystoreGetDecryptedKey (name wallet) password]\<rparr>)"
  using assms
  by (simp add: signBytes_def is_ledger_def getKey_local and_then_def ret_def)

lemma create_connected:
  "render_wallet w = Some wallet \<Longrightarrow>
   create env txOptions w =
     (lcd_tx_create env (address wallet) txOptions,
      w\<lparr>calls := calls w @ [LcdTxCreate (address wallet) txOptions]\<rparr>)"
  by (simp add: create_def external_def)

lemma createSignature_render_wallet:
  "render_wallet (snd (createSignature env t a password w)) = render_wallet w"
  by (simp add: createSignature_def getKey_def getLedgerKey_def getConnectedWallet_def op_defs
      Let_def split: option.splits sum.splits)

lemma sign_render_wallet:
  "render_wallet (snd (sign env txOptions password w)) = render_wallet w"
  by (simp add: sign_def create_def getKey_def getLedgerKey_def getConnectedWallet_def op_defs
      Let_def split: option.splits sum.splits prod.splits)

subsection \<open>encodeEncryptedWallet\<close>

text \<open>
  C2. The claim: with a password the keystore fails to decrypt, \<open>encodeEncryptedWallet\<close>
  fails with IncorrectPasswordError and never builds a bundle from an absent key. The
  code has no check of the key here (\<open>sign\<close>, \<open>signBytes\<close> and \<open>createSignature\<close> have
  \<open>if (!pk) throw new PasswordError("Incorrect password")\<close>): when the keystore answers
  with no key, the absent key goes to \<open>encrypt\<close> and an encoded bundle is returned.
\<close>

theorem encodeEncryptedWallet_absent_key:
  assumes "render_wallet w = Some wallet" and "\<not> ledger wallet"
      and "is_local env (Some wallet)"
      and "keystore_getDecryptedKey env (name wallet) password = Inr None"
  shows "encodeEncryptedWallet env password w =
     (Inr (encode_json env
            \<lparr>bundle_name = name wallet, bundle_address = address wallet,
             encrypted_key = encrypt env None password\<rparr>),
      w\<lparr>calls := calls w @ [KeystoreGetDecryptedKey (name wallet) password]\<rparr>)"
  using assms by (simp add: encodeEncryptedWallet_local)

text \<open>
  At the wallet \<open>alice\<close> with the password \<open>wrong\<close>, for which the sample keystore has no
  key: the call returns a bundle encrypted from the absent key.
\<close>

theorem encodeEncryptedWallet_absent_key_witness:
  "render_wallet alice_world = Some alice_wallet \<and> \<not> ledger alice_wallet
   \<and> is_local sample_env (Some alice_wallet)
   \<and> keystore_getDecryptedKey sample_env (name alice_wallet) ''wrong'' = Inr None
   \<and> fst (encodeEncryptedWallet sample_env ''wrong'' alice_world)
       = Inr ''alice,addr1,undefined#wrong''
   \<and> fst (encodeEncryptedWallet sample_env ''wrong'' alice_world) \<noteq> Inl IncorrectPasswordError"
  using encodeEncryptedWallet_absent_key [of alice_world alice_wallet sample_env "''wrong''"]
  by (simp add: sample_defs)

subsection \<open>disconnect\<close>

text \<open>
  C3 (as amended). \<open>disconnect()\<close> clears the persisted record and the in-memory session
  whenever the external clear returns; when the external clear throws, the error
  propagates and \<open>setWallet(undefined)\<close> is not reached, so the in-memory session is
  left as it was.
\<close>

theorem disconnect_clears_when_clear_returns:
  "(keystore_clearWallet env = None \<longrightarrow>
      disconnect env w =
        (Inr (), w\<lparr>session := None, persisted := None,
                   calls := calls w @ [KeystoreClearWallet]\<rparr>))
   \<and> (keystore_clearWallet env = Some e \<longrightarrow>
      disconnect env w = (Inl e, w\<lparr>calls := calls w @ [KeystoreClearWallet]\<rparr>))"
  by (simp add: disconnect_cases)

text \<open>Both cases, on the session of \<open>alice\<close>.\<close>

theorem disconnect_clears_when_clear_returns_witness:
  "keystore_clearWallet sample_env = None
   \<and> session (snd (disconnect sample_env alice_world)) = None
   \<and> persisted (snd (disconnect sample_env alice_world)) = None
   \<and> fst (disconnect sample_env alice_world) = Inr ()
   \<and> keystore_clearWallet failing_clear_env = Some (Error ''storage unavailable'')
   \<and> fst (disconnect failing_clear_env alice_world) = Inl (Error ''storage unavailable'')"
  using disconnect_clears_when_clear_returns [of sample_env alice_world "Error []"]
    disconnect_clears_when_clear_returns
      [of failing_clear_env alice_world "Error ''storage unavailable''"]
  by (simp add: sample_defs)

text \<open>
  The claim as stated fails when the external clear throws: the wallet \<open>alice\<close> is still
  connected after \<open>disconnect()\<close>.
\<close>

theorem disconnect_clear_fails_counterexample:
  "keystore_clearWallet failing_clear_env = Some (Error ''storage unavailable'')
   \<and> session alice_world = Some alice_wallet
   \<and> session (snd (disconnect failing_clear_env alice_world)) = Some alice_wallet"
  by (simp add: disconnect_cases sample_defs)

subsection \<open>signBytes on a Ledger session\<close>

text \<open>
  C4 (as amended). For every address, bytes and password: once \<open>connectLedger(address)\<close>
  has returned and the hook has rendered again, \<open>signBytes(bytes, password)\<close> fails with
  UnsupportedOperation and leaves the world as it was; in particular it makes no
  keystore call, so no key decryption is attempted.
\<close>

theorem connectLedger_render_then_signBytes:
  assumes "connectLedger env a w = (Inr (), w')"
  shows "signBytes env bytes password (render w') = (Inl UnsupportedOperation, render w')
         \<and> filter is_keystore_call (calls (snd (signBytes env bytes password (render w'))))
             = filter is_keystore_call (calls (render w'))"
proof -
  from assms
  have "session w' = Some \<lparr>name = None, address = a, multisig = False, ledger = True\<rparr>"
    by (auto simp: connectLedger_cases Let_def split: option.splits)
  then have "render_wallet (render w')
      = Some \<lparr>name = None, address = a, multisig = False, ledger = True\<rparr>"
    by (simp add: render_def)
  then have "signBytes env bytes password (render w') = (Inl UnsupportedOperation, render w')"
    by (simp add: signBytes_ledger)
  then show ?thesis by simp
qed

text \<open>\<open>connectLedger("addr2")\<close> over the session of \<open>alice\<close>, a render, then \<open>signBytes\<close>.\<close>

theorem connectLedger_render_then_signBytes_witness:
  "fst (connectLedger sample_env ''addr2'' alice_world) = Inr ()
   \<and> signBytes sample_env ''bytes'' ''pw1''
        (render (snd (connectLedger sample_env ''addr2'' alice_world)))
       = (Inl UnsupportedOperation,
          render (snd (connectLedger sample_env ''addr2'' alice_world)))"
  using connectLedger_render_then_signBytes
    [of sample_env "''addr2''" alice_world "snd (connectLedger sample_env ''addr2'' alice_world)"
        "''bytes''" "''pw1''"]
  by (simp add: connectLedger_cases sample_defs Let_def)

text \<open>
  The claim as stated fails when \<open>signBytes\<close> is the one of the render before
  \<open>connectLedger\<close>: it still sees the wallet \<open>alice\<close>, asks the keystore for her key and
  signs the bytes.
\<close>

theorem connectLedger_then_signBytes_counterexample:
  "fst (connectLedger sample_env ''addr2'' alice_world) = Inr ()
   \<and> session (snd (connectLedger sample_env ''addr2'' alice_world)) = Some ledger_wallet
   \<and> signBytes sample_env ''bytes'' ''pw1'' (snd (connectLedger sample_env ''addr2'' alice_world))
       = (Inr \<lparr>recid = 0, signature = ''sig'', public_key = Some ''pub1''\<rparr>,
          (snd (connectLedger sample_env ''addr2'' alice_world))
            \<lparr>calls := [KeystoreStoreWallet ledger_wallet,
                        KeystoreGetDecryptedKey (Some ''alice'') ''pw1'']\<rparr>)"
proof -
  have r: "render_wallet (snd (connectLedger sample_env ''addr2'' alice_world))
      = Some alice_wallet"
    by (simp add: connectLedger_cases sample_defs Let_def)
  have c: "calls (snd (connectLedger sample_env ''addr2'' alice_world))
      = [KeystoreStoreWallet ledger_wallet]"
    by (simp add: connectLedger_cases sample_defs Let_def)
  have k: "keystore_getDecryptedKey sample_env (name alice_wallet) ''pw1'' = Inr (Some alice_key)"
    by (simp add: sample_defs)
  have n: "new_RawKey sample_env alice_key = Inr (RawKey alice_key)"
    by (simp add: sample_env_def alice_key_accepted)
  have e: "raw_ecdsaSign sample_env alice_key ''bytes'' = (Some ''sig'', 0)"
    by (simp add: sample_env_def)
  have l: "\<not> ledger alice_wallet" "is_local sample_env (Some alice_wallet)"
    by (simp_all add: sample_defs)
  have a: "alice_key \<noteq> []" by (simp add: alice_key_accepted)
  have "signBytes sample_env ''bytes'' ''pw1'' (snd (connectLedger sample_env ''addr2'' alice_world))
       = (Inr \<lparr>recid = 0, signature = base64 sample_env ''sig'',
               public_key = raw_publicKey sample_env alice_key\<rparr>,
          (snd (connectLedger sample_env ''addr2'' alice_world))
            \<lparr>calls := calls (snd (connectLedger sample_env ''addr2'' alice_world))
               @ [KeystoreGetDecryptedKey (name alice_wallet) ''pw1'']\<rparr>)"
    by (rule signBytes_local_path [OF r l k a n e])
  then show ?thesis
    by (simp add: c) (simp add: connectLedger_cases sample_defs Let_def)
qed

subsection \<open>sign with a wrong password\<close>

text \<open>
  C5. For every connected wallet without the Ledger mark (one that \<open>is.local\<close> accepts)
  and every password for which the keystore yields no key (an absent or an empty one),
  \<open>sign(txOptions, password)\<close> fails with IncorrectPasswordError; the only call made is
  the keystore's decryption, so no call of the chain client (account lookup, transaction
  creation, broadcast) is made, and the session and the persisted record are unchanged.
\<close>

theorem sign_wrong_password_fails_fast:
  assumes "render_wallet w = Some wallet" and "\<not> ledger wallet"
      and "is_local env (Some wallet)"
      and "keystore_getDecryptedKey env (name wallet) password = Inr pk" and "falsy pk"
  shows "sign env txOptions password w =
           (Inl IncorrectPasswordError,
            w\<lparr>calls := calls w @ [KeystoreGetDecryptedKey (name wallet) password]\<rparr>)
         \<and> filter is_lcd_call (calls (snd (sign env txOptions password w)))
             = filter is_lcd_call (calls w)
         \<and> session (snd (sign env txOptions password w)) = session w
         \<and> persisted (snd (sign env txOptions password w)) = persisted w"
  using sign_no_key [OF assms] by simp

text \<open>The wallet \<open>alice\<close> with the password \<open>wrong\<close>.\<close>

theorem sign_wrong_password_fails_fast_witness:
  "render_wallet alice_world = Some alice_wallet \<and> \<not> ledger alice_wallet
   \<and> is_local sample_env (Some alice_wallet)
   \<and> keystore_getDecryptedKey sample_env (name alice_wallet) ''wrong'' = Inr None
   \<and> falsy None
   \<and> sign sample_env ''send'' ''wrong'' alice_world =
       (Inl IncorrectPasswordError,
        alice_world\<lparr>calls := [KeystoreGetDecryptedKey (Some ''alice'') ''wrong'']\<rparr>)"
  using sign_wrong_password_fails_fast
    [of alice_world alice_wallet sample_env "''wrong''" None "''send''"]
  by (simp add: sample_defs falsy_def)

subsection \<open>After disconnect\<close>

text \<open>
  C6 (as amended). Once \<open>disconnect()\<close> has returned and the hook has rendered again,
  each of \<open>create\<close>, \<open>createSignature\<close>, \<open>sign\<close>, \<open>signBytes\<close> and \<open>post\<close> fails with
  SessionError, for all arguments and whatever wallet was connected before.
\<close>

theorem after_disconnect_and_render_all_fail:
  assumes "disconnect env w = (Inr (), w')"
  shows "create env txOptions (render w') = (Inl SessionError, render w')
         \<and> createSignature env t a password (render w') = (Inl SessionError, render w')
         \<and> sign env txOptions password (render w') = (Inl SessionError, render w')
         \<and> signBytes env bytes password (render w') = (Inl SessionError, render w')
         \<and> post env txOptions password (render w') = (Inl SessionError, render w')"
proof -
  from assms have "session w' = None"
    by (auto simp: disconnect_cases split: option.splits)
  then have "render_wallet (render w') = None"
    by (simp add: render_def)
  then show ?thesis by (simp add: no_session_fails)
qed

text \<open>The five operations after disconnecting \<open>alice\<close> and rendering.\<close>

theorem after_disconnect_and_render_all_fail_witness:
  "fst (disconnect sample_env alice_world) = Inr ()
   \<and> fst (create sample_env ''send'' (render (snd (disconnect sample_env alice_world))))
       = Inl SessionError
   \<and> fst (createSignature sample_env sample_tx ''addr1'' ''pw1''
            (render (snd (disconnect sample_env alice_world)))) = Inl SessionError
   \<and> fst (sign sample_env ''send'' ''pw1'' (render (snd (disconnect sample_env alice_world))))
       = Inl SessionError
   \<and> fst (signBytes sample_env ''bytes'' ''pw1''
            (render (snd (disconnect sample_env alice_world)))) = Inl SessionError
   \<and> fst (post sample_env ''send'' ''pw1'' (render (snd (disconnect sample_env alice_world))))
       = Inl SessionError"
  using after_disconnect_and_render_all_fail
    [of sample_env alice_world "snd (disconnect sample_env alice_world)"
        "''send''" sample_tx "''addr1''" "''pw1''" "''bytes''"]
  by (simp add: disconnect_cases sample_defs)

text \<open>
  The claim as stated fails in two ways. When the external clear throws, the wallet
  \<open>alice\<close> stays connected and \<open>create\<close> succeeds even after a render; and when the
  clear returns, the \<open>create\<close> of the render before \<open>disconnect()\<close> still sees \<open>alice\<close>
  and succeeds.
\<close>

theorem after_disconnect_counterexample:
  "fst (disconnect failing_clear_env alice_world) = Inl (Error ''storage unavailable'')
   \<and> fst (create failing_clear_env ''send''
            (render (snd (disconnect failing_clear_env alice_world))))
       = Inr \<lparr>auth_info = ''addr1'', body = ''send''\<rparr>
   \<and> fst (disconnect sample_env alice_world) = Inr ()
   \<and> fst (create sample_env ''send'' (snd (disconnect sample_env alice_world)))
       = Inr \<lparr>auth_info = ''addr1'', body = ''send''\<rparr>"
  by (simp add: disconnect_cases create_def external_def render_def sample_defs)

subsection \<open>validatePassword\<close>

text \<open>
  C7 (as amended). \<open>validatePassword(password)\<close> never propagates an error. With no
  connected session (or one that \<open>is.local\<close> does not accept), and whenever the keystore's password test
  throws, it returns the one generic message \<open>"Incorrect password"\<close>; whenever the
  password test returns a value, it returns that value unchanged.
\<close>

theorem validatePassword_outcomes:
  "(\<exists>v. fst (validatePassword env password w) = Inr v)
   \<and> (render_wallet w = None \<longrightarrow>
        validatePassword env password w = (Inr (Message ''Incorrect password''), w))
   \<and> (render_wallet w = Some wallet \<and> \<not> is_local env (Some wallet) \<longrightarrow>
        validatePassword env password w = (Inr (Message ''Incorrect password''), w))
   \<and> (render_wallet w = Some wallet \<and> is_local env (Some wallet)
        \<and> keystore_testPassword env (name wallet) password = Inl e \<longrightarrow>
        fst (validatePassword env password w) = Inr (Message ''Incorrect password''))
   \<and> (render_wallet w = Some wallet \<and> is_local env (Some wallet)
        \<and> keystore_testPassword env (name wallet) password = Inr b \<longrightarrow>
        fst (validatePassword env password w) = Inr (Tested b))"
proof -
  have never: "\<exists>v. fst (validatePassword env password w) = Inr v"
  proof (cases "connectedWallet env w")
    case None
    then show ?thesis by (simp add: validatePassword_no_wallet)
  next
    case (Some cw)
    then have "render_wallet w = Some cw" and "is_local env (Some cw)"
      by (auto simp: connectedWallet_def split: if_splits)
    then show ?thesis
      by (simp add: validatePassword_local split: sum.splits)
  qed
  have none: "render_wallet w = None \<longrightarrow>
      validatePassword env password w = (Inr (Message ''Incorrect password''), w)"
    by (simp add: validatePassword_no_wallet connectedWallet_def)
  have ledger: "render_wallet w = Some wallet \<and> \<not> is_local env (Some wallet) \<longrightarrow>
      validatePassword env password w = (Inr (Message ''Incorrect password''), w)"
    by (simp add: validatePassword_no_wallet connectedWallet_def)
  have thrown: "render_wallet w = Some wallet \<and> is_local env (Some wallet)
        \<and> keystore_testPassword env (name wallet) password = Inl e \<longrightarrow>
        fst (validatePassword env password w) = Inr (Message ''Incorrect password'')"
    by (simp add: validatePassword_local)
  have returned: "render_wallet w = Some wallet \<and> is_local env (Some wallet)
        \<and> keystore_testPassword env (name wallet) password = Inr b \<longrightarrow>
        fst (validatePassword env password w) = Inr (Tested b)"
    by (simp add: validatePassword_local)
  from never none ledger thrown returned show ?thesis by blast
qed

text \<open>
  No session, a session the sample \<open>is.local\<close> does not accept, a keystore whose test
  throws, and a correct password.
\<close>

theorem validatePassword_outcomes_witness:
  "fst (validatePassword sample_env ''pw1'' (walletState None)) = Inr (Message ''Incorrect password'')
   \<and> render_wallet ledger_world = Some ledger_wallet
   \<and> \<not> is_local sample_env (Some ledger_wallet)
   \<and> fst (validatePassword sample_env ''pw1'' ledger_world) = Inr (Message ''Incorrect password'')
   \<and> render_wallet alice_world = Some alice_wallet
   \<and> is_local locked_env (Some alice_wallet) \<and> is_local sample_env (Some alice_wallet)
   \<and> keystore_testPassword locked_env (name alice_wallet) ''pw1'' = Inl (Error ''locked'')
   \<and> fst (validatePassword locked_env ''pw1'' alice_world) = Inr (Message ''Incorrect password'')
   \<and> keystore_testPassword sample_env (name alice_wallet) ''pw1'' = Inr True
   \<and> fst (validatePassword sample_env ''pw1'' alice_world) = Inr (Tested True)"
  using validatePassword_outcomes
      [of sample_env "''pw1''" "walletState None" alice_wallet "Error ''locked''" True]
    validatePassword_outcomes
      [of sample_env "''pw1''" ledger_world ledger_wallet "Error ''locked''" True]
    validatePassword_outcomes
      [of locked_env "''pw1''" alice_world alice_wallet "Error ''locked''" True]
    validatePassword_outcomes
      [of sample_env "''pw1''" alice_world alice_wallet "Error ''locked''" True]
  by (simp add: sample_defs)

text \<open>
  The claim as stated fails for a keystore whose password test answers \<open>false\<close> to a
  wrong password: that cause yields \<open>false\<close>, the missing session yields the message.
\<close>

theorem validatePassword_wrong_password_counterexample:
  "keystore_testPassword sample_env (name alice_wallet) ''wrong'' = Inr False
   \<and> fst (validatePassword sample_env ''wrong'' alice_world) = Inr (Tested False)
   \<and> fst (validatePassword sample_env ''wrong'' (walletState None))
       = Inr (Message ''Incorrect password'')
   \<and> fst (validatePassword sample_env ''wrong'' alice_world)
       \<noteq> fst (validatePassword sample_env ''wrong'' (walletState None))"
proof -
  have r: "render_wallet alice_world = Some alice_wallet"
    and l: "is_local sample_env (Some alice_wallet)"
    and n: "connectedWallet sample_env (walletState None) = None"
    by (simp_all add: connectedWallet_def sample_defs)
  show ?thesis
    by (simp add: validatePassword_local [OF r l] validatePassword_no_wallet [OF n])
       (simp add: sample_defs)
qed

subsection \<open>Signing modes\<close>

text \<open>
  C8 (as amended). On a Ledger session, \<open>sign()\<close> hands the unsigned transaction to the
  device with the sign mode \<open>SIGN_MODE_LEGACY_AMINO_JSON\<close>, and \<open>createSignature()\<close> asks
  the device key for an amino signature (\<open>createSignatureAmino\<close>). On a session without
  the Ledger mark that \<open>is.local\<close> accepts, \<open>sign()\<close> delegates to the chain client's
  \<open>createAndSignTx\<close> with the key built from the decrypted one, once \<open>RawKey\<close> has accepted
  it, and fixes no sign mode; \<open>createSignature()\<close> there asks the software key for an
  amino signature as well and makes no call of \<open>createAndSignTx\<close>.
\<close>

theorem signing_paths_by_variant:
  assumes "render_wallet w = Some wallet"
  shows "(ledger wallet \<and> ledger_getPubKey env = Inr (Some pk)
          \<and> lcd_accountNumberAndSequence env (LedgerKey pk) = Inr (an, sq)
          \<and> lcd_tx_create env (address wallet) txOptions = Inr unsignedTx \<longrightarrow>
          fst (sign env txOptions password w) =
            ledger_signTx env pk unsignedTx
              \<lparr>opt_chainID = chainID env, opt_accountNumber = an, opt_sequence = sq,
               opt_signMode = SIGN_MODE_LEGACY_AMINO_JSON\<rparr>
          \<and> last (calls (snd (sign env txOptions password w))) =
              LedgerSignTx pk unsignedTx
                \<lparr>opt_chainID = chainID env, opt_accountNumber = an, opt_sequence = sq,
                 opt_signMode = SIGN_MODE_LEGACY_AMINO_JSON\<rparr>)
       \<and> (ledger wallet \<and> ledger_getPubKey env = Inr (Some pk)
          \<and> lcd_accountInfo env a = Inr accountInfo \<longrightarrow>
          fst (createSignature env t a password w) =
            ledger_createSignatureAmino env pk (SignDoc env accountInfo t)
          \<and> last (calls (snd (createSignature env t a password w))) =
              LedgerCreateSignatureAmino pk (SignDoc env accountInfo t))
       \<and> (\<not> ledger wallet \<and> is_local env (Some wallet)
          \<and> keystore_getDecryptedKey env (name wallet) password = Inr (Some k) \<and> k \<noteq> []
          \<and> new_RawKey env k = Inr rawKey \<longrightarrow>
          sign env txOptions password w =
            (lcd_createAndSignTx env rawKey txOptions,
             w\<lparr>calls := calls w @
                 [KeystoreGetDecryptedKey (name wallet) password,
                  LcdCreateAndSignTx rawKey txOptions]\<rparr>))
       \<and> (\<not> ledger wallet \<and> is_local env (Some wallet)
          \<and> keystore_getDecryptedKey env (name wallet) password = Inr (Some k) \<and> k \<noteq> []
          \<and> lcd_accountInfo env a = Inr accountInfo \<longrightarrow>
          createSignature env t a password w =
            (raw_createSignatureAmino env k (SignDoc env accountInfo t),
             w\<lparr>calls := calls w @
                 [LcdAccountInfo a, KeystoreGetDecryptedKey (name wallet) password]\<rparr>))"
  using assms
  by (simp add: sign_ledger_path createSignature_ledger_path sign_local_path
      createSignature_local_path)

text \<open>The device paths on the Ledger session, the software paths on the session of \<open>alice\<close>.\<close>

theorem signing_paths_by_variant_witness:
  "render_wallet ledger_world = Some ledger_wallet \<and> ledger ledger_wallet
   \<and> ledger_getPubKey sample_env = Inr (Some ''pub2'')
   \<and> lcd_accountNumberAndSequence sample_env (LedgerKey ''pub2'') = Inr (7, 42)
   \<and> lcd_tx_create sample_env (address ledger_wallet) ''send''
       = Inr \<lparr>auth_info = ''addr2'', body = ''send''\<rparr>
   \<and> last (calls (snd (sign sample_env ''send'' [] ledger_world))) =
       LedgerSignTx ''pub2'' \<lparr>auth_info = ''addr2'', body = ''send''\<rparr>
         \<lparr>opt_chainID = ''columbus-5'', opt_accountNumber = 7, opt_sequence = 42,
          opt_signMode = SIGN_MODE_LEGACY_AMINO_JSON\<rparr>
   \<and> lcd_accountInfo sample_env ''addr2'' = Inr \<lparr>getAccountNumber = 7, getSequenceNumber = 42\<rparr>
   \<and> fst (createSignature sample_env sample_tx ''addr2'' [] ledger_world)
       = Inr ''ledger-signature''
   \<and> render_wallet alice_world = Some alice_wallet \<and> \<not> ledger alice_wallet
   \<and> is_local sample_env (Some alice_wallet)
   \<and> keystore_getDecryptedKey sample_env (name alice_wallet) ''pw1'' = Inr (Some alice_key)
   \<and> alice_key \<noteq> [] \<and> new_RawKey sample_env alice_key = Inr (RawKey alice_key)
   \<and> lcd_accountInfo sample_env ''addr1'' = Inr \<lparr>getAccountNumber = 7, getSequenceNumber = 42\<rparr>
   \<and> sign sample_env ''send'' ''pw1'' alice_world =
       (Inr \<lparr>auth_info = ''signed'', body = ''send''\<rparr>,
        alice_world\<lparr>calls := [KeystoreGetDecryptedKey (Some ''alice'') ''pw1'',
                               LcdCreateAndSignTx (RawKey alice_key) ''send'']\<rparr>)
   \<and> fst (createSignature sample_env sample_tx ''addr1'' ''pw1'' alice_world)
       = Inr ''raw-signature''"
  using signing_paths_by_variant
      [where w = ledger_world and wallet = ledger_wallet and env = sample_env
         and pk = "''pub2''" and an = 7 and sq = 42 and txOptions = "''send''"
         and unsignedTx = "\<lparr>auth_info = ''addr2'', body = ''send''\<rparr>" and password = "[]"
         and a = "''addr2''" and t = sample_tx
         and accountInfo = "\<lparr>getAccountNumber = 7, getSequenceNumber = 42\<rparr>"]
    signing_paths_by_variant
      [where w = alice_world and wallet = alice_wallet and env = sample_env
         and password = "''pw1''" and k = alice_key and txOptions = "''send''"
         and rawKey = "RawKey alice_key" and a = "''addr1''" and t = sample_tx
         and accountInfo = "\<lparr>getAccountNumber = 7, getSequenceNumber = 42\<rparr>"]
  by (simp add: sample_defs alice_key_accepted)

text \<open>
  The claim as stated fails for \<open>createSignature\<close> on the software path: on the session
  of \<open>alice\<close> it answers with the software key's amino signature, and the calls it makes
  are the account lookup and the key decryption; the chain client's \<open>createAndSignTx\<close>
  is not called.
\<close>

theorem createSignature_local_amino_counterexample:
  "render_wallet alice_world = Some alice_wallet \<and> \<not> ledger alice_wallet
   \<and> createSignature sample_env sample_tx ''addr1'' ''pw1'' alice_world =
       (raw_createSignatureAmino sample_env alice_key
          \<lparr>doc_chain_id = ''columbus-5'', doc_account_number = 7, doc_sequence = 42,
           doc_auth_info = ''fee'', doc_body = ''send''\<rparr>,
        alice_world\<lparr>calls := [LcdAccountInfo ''addr1'',
                               KeystoreGetDecryptedKey (Some ''alice'') ''pw1'']\<rparr>)"
proof -
  have r: "render_wallet alice_world = Some alice_wallet"
    by (simp add: sample_defs)
  have l: "\<not> ledger alice_wallet" "is_local sample_env (Some alice_wallet)"
    by (simp_all add: sample_defs)
  have i: "lcd_accountInfo sample_env ''addr1''
      = Inr \<lparr>getAccountNumber = 7, getSequenceNumber = 42\<rparr>"
    by (simp add: sample_env_def)
  have k: "keystore_getDecryptedKey sample_env (name alice_wallet) ''pw1'' = Inr (Some alice_key)"
    by (simp add: sample_defs)
  have a: "alice_key \<noteq> []" by (simp add: alice_key_accepted)
  show ?thesis
    using createSignature_local_path [OF r l i k a, of sample_tx] r l
    by (simp add: SignDoc_def) (simp add: sample_defs)
qed

subsection \<open>Account number and sequence\<close>

text \<open>
  C9. Every signing attempt that builds a signing document fetches the account number and
  sequence from the chain client on that very call, and the fetched values are the ones
  in the document: \<open>createSignature\<close> first calls \<open>accountInfo(address)\<close> and signs the
  document built from its answer (on the device path and on the software path), and the
  Ledger path of \<open>sign\<close> calls \<open>accountNumberAndSequence()\<close> and hands its answer to the
  device. Nothing is kept from an earlier call: after any earlier \<open>createSignature\<close> or
  \<open>sign\<close>, made while the chain answered otherwise (\<open>envB\<close>), the call uses the answer
  it gets now.
\<close>

theorem signing_uses_account_data_fetched_on_the_call:
  assumes "render_wallet w = Some wallet"
      and "w' = w \<or> w' = snd (createSignature envB tB aB passwordB w)
           \<or> w' = snd (sign envB txOptionsB passwordB w)"
  shows "(ledger wallet \<and> ledger_getPubKey env = Inr (Some pk)
          \<and> lcd_accountInfo env a = Inr accountInfo \<longrightarrow>
          createSignature env t a password w' =
            (ledger_createSignatureAmino env pk
               \<lparr>doc_chain_id = lcd_chainID env,
                doc_account_number = getAccountNumber accountInfo,
                doc_sequence = getSequenceNumber accountInfo,
                doc_auth_info = auth_info t, doc_body = body t\<rparr>,
             w'\<lparr>calls := calls w' @
                 [LcdAccountInfo a, LedgerGetPubKey,
                  LedgerCreateSignatureAmino pk
                    \<lparr>doc_chain_id = lcd_chainID env,
                     doc_account_number = getAccountNumber accountInfo,
                     doc_sequence = getSequenceNumber accountInfo,
                     doc_auth_info = auth_info t, doc_body = body t\<rparr>]\<rparr>))
       \<and> (\<not> ledger wallet \<and> is_local env (Some wallet)
          \<and> keystore_getDecryptedKey env (name wallet) password = Inr (Some k) \<and> k \<noteq> []
          \<and> lcd_accountInfo env a = Inr accountInfo \<longrightarrow>
          createSignature env t a password w' =
            (raw_createSignatureAmino env k
               \<lparr>doc_chain_id = lcd_chainID env,
                doc_account_number = getAccountNumber accountInfo,
                doc_sequence = getSequenceNumber accountInfo,
                doc_auth_info = auth_info t, doc_body = body t\<rparr>,
             w'\<lparr>calls := calls w' @
                 [LcdAccountInfo a, KeystoreGetDecryptedKey (name wallet) password]\<rparr>))
       \<and> (ledger wallet \<and> ledger_getPubKey env = Inr (Some pk)
          \<and> lcd_accountNumberAndSequence env (LedgerKey pk) = Inr (an, sq)
          \<and> lcd_tx_create env (address wallet) txOptions = Inr unsignedTx \<longrightarrow>
          sign env txOptions password w' =
            (ledger_signTx env pk unsignedTx
               \<lparr>opt_chainID = chainID env, opt_accountNumber = an, opt_sequence = sq,
                opt_signMode = SIGN_MODE_LEGACY_AMINO_JSON\<rparr>,
             w'\<lparr>calls := calls w' @
                 [LedgerGetPubKey, LcdAccountNumberAndSequence (LedgerKey pk),
                  LcdTxCreate (address wallet) txOptions,
                  LedgerSignTx pk unsignedTx
                    \<lparr>opt_chainID = chainID env, opt_accountNumber = an, opt_sequence = sq,
                     opt_signMode = SIGN_MODE_LEGACY_AMINO_JSON\<rparr>]\<rparr>))"
proof -
  from assms have s: "render_wallet w' = Some wallet"
    by (auto simp: createSignature_render_wallet sign_render_wallet)
  show ?thesis
    by (simp add: createSignature_ledger_path [OF s] createSignature_local_path [OF s]
        sign_ledger_path [OF s] SignDoc_def)
qed

text \<open>
  A first call while the account is at sequence 41, a second while it is at 42: the
  second one's document carries 42.
\<close>

theorem signing_uses_account_data_fetched_on_the_call_witness:
  "render_wallet ledger_world = Some ledger_wallet \<and> ledger ledger_wallet
   \<and> ledger_getPubKey sample_env = Inr (Some ''pub2'')
   \<and> lcd_accountInfo earlier_env ''addr2'' = Inr \<lparr>getAccountNumber = 7, getSequenceNumber = 41\<rparr>
   \<and> lcd_accountInfo sample_env ''addr2'' = Inr \<lparr>getAccountNumber = 7, getSequenceNumber = 42\<rparr>
   \<and> lcd_accountNumberAndSequence sample_env (LedgerKey ''pub2'') = Inr (7, 42)
   \<and> lcd_tx_create sample_env (address ledger_wallet) ''send''
       = Inr \<lparr>auth_info = ''addr2'', body = ''send''\<rparr>
   \<and> last (calls (snd (createSignature earlier_env sample_tx ''addr2'' [] ledger_world))) =
       LedgerCreateSignatureAmino ''pub2''
         \<lparr>doc_chain_id = ''columbus-5'', doc_account_number = 7, doc_sequence = 41,
          doc_auth_info = ''fee'', doc_body = ''send''\<rparr>
   \<and> last (calls (snd (createSignature sample_env sample_tx ''addr2'' []
        (snd (createSignature earlier_env sample_tx ''addr2'' [] ledger_world))))) =
       LedgerCreateSignatureAmino ''pub2''
         \<lparr>doc_chain_id = ''columbus-5'', doc_account_number = 7, doc_sequence = 42,
          doc_auth_info = ''fee'', doc_body = ''send''\<rparr>
   \<and> last (calls (snd (sign sample_env ''send'' []
        (snd (createSignature earlier_env sample_tx ''addr2'' [] ledger_world))))) =
       LedgerSignTx ''pub2'' \<lparr>auth_info = ''addr2'', body = ''send''\<rparr>
         \<lparr>opt_chainID = ''columbus-5'', opt_accountNumber = 7, opt_sequence = 42,
          opt_signMode = SIGN_MODE_LEGACY_AMINO_JSON\<rparr>
   \<and> render_wallet alice_world = Some alice_wallet \<and> \<not> ledger alice_wallet
   \<and> is_local sample_env (Some alice_wallet)
   \<and> keystore_getDecryptedKey sample_env (name alice_wallet) ''pw1'' = Inr (Some alice_key)
   \<and> lcd_accountInfo sample_env ''addr1'' = Inr \<lparr>getAccountNumber = 7, getSequenceNumber = 42\<rparr>
   \<and> createSignature sample_env sample_tx ''addr1'' ''pw1'' alice_world =
       (Inr ''raw-signature'',
        alice_world\<lparr>calls := [LcdAccountInfo ''addr1'',
                               KeystoreGetDecryptedKey (Some ''alice'') ''pw1'']\<rparr>)"
  using signing_uses_account_data_fetched_on_the_call
      [where w = ledger_world and wallet = ledger_wallet and env = earlier_env
         and w' = ledger_world
         and pk = "''pub2''" and password = "[]" and a = "''addr2''" and t = sample_tx
         and accountInfo = "\<lparr>getAccountNumber = 7, getSequenceNumber = 41\<rparr>"]
    signing_uses_account_data_fetched_on_the_call
      [where w = ledger_world and wallet = ledger_wallet and env = sample_env
         and w' = "snd (createSignature earlier_env sample_tx ''addr2'' [] ledger_world)"
         and envB = earlier_env and tB = sample_tx and aB = "''addr2''" and passwordB = "[]"
         and pk = "''pub2''" and an = 7 and sq = 42 and txOptions = "''send''"
         and unsignedTx = "\<lparr>auth_info = ''addr2'', body = ''send''\<rparr>" and password = "[]"
         and a = "''addr2''" and t = sample_tx
         and accountInfo = "\<lparr>getAccountNumber = 7, getSequenceNumber = 42\<rparr>"]
    signing_uses_account_data_fetched_on_the_call
      [where w = alice_world and wallet = alice_wallet and env = sample_env
         and w' = alice_world
         and password = "''pw1''" and k = alice_key and a = "''addr1''" and t = sample_tx
         and accountInfo = "\<lparr>getAccountNumber = 7, getSequenceNumber = 42\<rparr>"]
  by (simp add: sample_defs alice_key_accepted)

subsection \<open>Connecting over a connected session\<close>

text \<open>
  C10. \<open>connect(name)\<close> and \<open>connectLedger(address)\<close> do not look at the current session:
  whatever wallet is connected (or none), once the stored wallet is found and the
  keystore's write returns, each returns without error and leaves the new descriptor in
  both the persisted record and the in-memory session. No \<open>disconnect()\<close> is needed in
  between; the last connect wins.
\<close>

theorem connect_overwrites_session:
  "(keystore_getStoredWallet env n = Inr storedWallet
    \<and> keystore_storeWallet env
         \<lparr>name = Some n, address = stored_address storedWallet,
          multisig = stored_multisig storedWallet, ledger = False\<rparr> = None \<longrightarrow>
      connect env n w =
        (Inr (),
         w\<lparr>session := Some \<lparr>name = Some n, address = stored_address storedWallet,
                             multisig = stored_multisig storedWallet, ledger = False\<rparr>,
           persisted := Some \<lparr>name = Some n, address = stored_address storedWallet,
                               multisig = stored_multisig storedWallet, ledger = False\<rparr>,
           calls := calls w @
             [KeystoreGetStoredWallet n,
              KeystoreStoreWallet \<lparr>name = Some n, address = stored_address storedWallet,
                                   multisig = stored_multisig storedWallet, ledger = False\<rparr>]\<rparr>))
   \<and> (keystore_storeWallet env
         \<lparr>name = None, address = a, multisig = False, ledger = True\<rparr> = None \<longrightarrow>
      connectLedger env a w =
        (Inr (),
         w\<lparr>session := Some \<lparr>name = None, address = a, multisig = False, ledger = True\<rparr>,
           persisted := Some \<lparr>name = None, address = a, multisig = False, ledger = True\<rparr>,
           calls := calls w @
             [KeystoreStoreWallet
                \<lparr>name = None, address = a, multisig = False, ledger = True\<rparr>]\<rparr>))"
  by (simp add: connect_cases connectLedger_cases Let_def)

text \<open>Connecting \<open>team\<close>, and a Ledger at \<open>addr2\<close>, while \<open>alice\<close> is connected.\<close>

theorem connect_overwrites_session_witness:
  "session alice_world = Some alice_wallet
   \<and> fst (connect sample_env ''team'' alice_world) = Inr ()
   \<and> session (snd (connect sample_env ''team'' alice_world))
       = Some \<lparr>name = Some ''team'', address = ''addr3'', multisig = True, ledger = False\<rparr>
   \<and> persisted (snd (connect sample_env ''team'' alice_world))
       = Some \<lparr>name = Some ''team'', address = ''addr3'', multisig = True, ledger = False\<rparr>
   \<and> fst (connectLedger sample_env ''addr2'' alice_world) = Inr ()
   \<and> session (snd (connectLedger sample_env ''addr2'' alice_world)) = Some ledger_wallet
   \<and> persisted (snd (connectLedger sample_env ''addr2'' alice_world)) = Some ledger_wallet"
  using connect_overwrites_session
    [where env = sample_env and n = "''team''" and a = "''addr2''" and w = alice_world
       and storedWallet = "\<lparr>stored_address = ''addr3'', stored_multisig = True\<rparr>"]
  by (simp add: sample_defs)

end
